theory Spec2Isabelle
  imports Main "HOL-Library.Sublist"
begin

section \<open>Weatherscan API adapters: a shallow embedding\<close>

text \<open>
  The definitions follow \<^verbatim>\<open>webroot/js/api-adapters/openweathermap-adapter.js\<close>, which holds
  the two classes \<^verbatim>\<open>OpenWeatherMapAdapter\<close> and \<^verbatim>\<open>RainViewerAdapter\<close>.  Method names are
  kept; a leading underscore is dropped because an Isabelle name cannot start with one.

  Conventions of the embedding:
  \<^item> integral JavaScript numbers (identifiers, icon codes, timestamps, milliseconds, tile
    coordinates) are \<^typ>\<open>int\<close>;
  \<^item> a value that may be \<^verbatim>\<open>undefined\<close> or \<^verbatim>\<open>null\<close> is an \<^typ>\<open>'a option\<close>;
  \<^item> a thrown exception or a rejected promise is \<open>Inl\<close> of an error, a returned value or a
    fulfilled promise is \<open>Inr\<close>;
  \<^item> \<^verbatim>\<open>console\<close> output and issued network requests are collected in a list of events.
\<close>

subsection \<open>JavaScript operators used by the adapters\<close>

text \<open>
  \<^verbatim>\<open>x || d\<close> where \<open>x\<close> is a number or \<^verbatim>\<open>undefined\<close>: the left operand is returned unless it
  is falsy, and the falsy numbers among the integers are exactly \<open>0\<close>.
\<close>

definition js_or :: "int option \<Rightarrow> int \<Rightarrow> int" where
  "js_or x d = (case x of None \<Rightarrow> d | Some n \<Rightarrow> if n = 0 then d else n)"

text \<open>
  \<^verbatim>\<open>String.prototype.toLowerCase\<close> on the letters \<open>A\<close> to \<open>Z\<close>.  Strings are lists of bytes
  (UTF-8); a byte outside \<open>A\<close>..\<open>Z\<close> is kept, so no byte of a non-ASCII character ever turns
  into an ASCII letter.
\<close>

definition lowerChar :: "char \<Rightarrow> char" where
  "lowerChar c =
     (let n = (of_char c :: nat) in if 65 \<le> n \<and> n \<le> 90 then char_of (n + 32) else c)"

definition toLowerCase :: "string \<Rightarrow> string" where
  "toLowerCase s = map lowerChar s"

text \<open>\<^verbatim>\<open>s.includes(sub)\<close>: \<open>sub\<close> occurs in \<open>s\<close> at some position.\<close>

fun str_includes :: "string \<Rightarrow> string \<Rightarrow> bool" where
  "str_includes [] sub = (sub = [])"
| "str_includes (c # cs) sub = (prefix sub (c # cs) \<or> str_includes cs sub)"

text \<open>\<^verbatim>\<open>s.endsWith(sub)\<close>.\<close>

definition endsWith :: "string \<Rightarrow> string \<Rightarrow> bool" where
  "endsWith s sub = suffix sub s"

subsection \<open>Condition identifiers to icon codes\<close>

text \<open>
  The object literal \<^verbatim>\<open>iconMap\<close> of \<^verbatim>\<open>mapOWMIconToWeathercom\<close>, in source order.  Four of its
  values depend on the local constant \<^verbatim>\<open>isNight\<close>.
\<close>

definition iconMap :: "bool \<Rightarrow> (int \<times> int) list" where
  "iconMap night =
    [(200, 38), (201, 38), (202, 38),
     (210, 37), (211, 37), (212, 37),
     (221, 37), (230, 38), (231, 38), (232, 38),
     (300, 9), (301, 9), (302, 9), (310, 9), (311, 9),
     (312, 9), (313, 9), (314, 9), (321, 9),
     (500, 11), (501, 12), (502, 12), (503, 12), (504, 12),
     (511, 10),
     (520, 11), (521, 11), (522, 12), (531, 12),
     (600, 14), (601, 16), (602, 41), (611, 10), (612, 10), (613, 10),
     (615, 5), (616, 5), (620, 14), (621, 14), (622, 16),
     (701, 20),
     (711, 22),
     (721, 19),
     (731, 19),
     (741, 20),
     (751, 19),
     (761, 19),
     (762, 19),
     (771, 23),
     (781, 0),
     (800, if night then 31 else 32),
     (801, if night then 33 else 30),
     (802, if night then 27 else 28),
     (803, if night then 27 else 28),
     (804, 26)]"

text \<open>
  \<^verbatim>\<open>const isNight = iconCode && iconCode.endsWith('n')\<close>, read as a condition: a missing or
  empty \<^verbatim>\<open>iconCode\<close> is falsy.
\<close>

definition isNight :: "string option \<Rightarrow> bool" where
  "isNight iconCode =
     (case iconCode of None \<Rightarrow> False | Some s \<Rightarrow> s \<noteq> [] \<and> endsWith s ''n'')"

text \<open>\<^verbatim>\<open>return iconMap[weatherId] || 44\<close>.\<close>

definition mapOWMIconToWeathercom :: "int \<Rightarrow> string option \<Rightarrow> int" where
  "mapOWMIconToWeathercom weatherId iconCode =
     js_or (map_of (iconMap (isNight iconCode)) weatherId) 44"

subsection \<open>Alert severity\<close>

text \<open>
  \<^verbatim>\<open>_getAlertSeverity(tags)\<close>; \<open>None\<close> is a missing tag list (\<^verbatim>\<open>!tags\<close>), and an empty array
  is truthy in JavaScript, so it takes the path through the two \<^verbatim>\<open>some\<close> tests.
\<close>

definition getAlertSeverity :: "string list option \<Rightarrow> int" where
  "getAlertSeverity tags =
     (case tags of
        None \<Rightarrow> 3
      | Some ts \<Rightarrow>
          if list_ex (\<lambda>t. str_includes (toLowerCase t) ''extreme'') ts then 4
          else if list_ex (\<lambda>t. str_includes (toLowerCase t) ''severe'') ts then 3
          else 2)"

subsection \<open>Errors and settled promises\<close>

text \<open>
  The errors that reach a \<^verbatim>\<open>catch\<close> in the adapters: \<^verbatim>\<open>fetch\<close> rejecting (no reply at all),
  the adapters' own \<^verbatim>\<open>Error('HTTP error! status: ...')\<close> carrying the status, the
  \<^verbatim>\<open>SyntaxError\<close> of \<^verbatim>\<open>response.json()\<close> on an unparsable body, the \<^verbatim>\<open>TypeError\<close> of
  reading a property of \<^verbatim>\<open>undefined\<close> or calling what is not a function, and the
  \<^verbatim>\<open>RangeError\<close> of \<^verbatim>\<open>toISOString\<close> on an invalid date.
\<close>

datatype js_error = NetworkError | HttpError int | SyntaxError | TypeError | RangeError

text \<open>An awaited promise is represented by how it settles: \<open>Inl e\<close> rejected, \<open>Inr v\<close> fulfilled.\<close>

type_synonym 'a settled = "js_error + 'a"

subsection \<open>RainViewer: radar timestamps and series\<close>

text \<open>
  The part of the manifest (\<^verbatim>\<open>weather-maps.json\<close>) that the radar methods read:
  \<^verbatim>\<open>maps.radar\<close>, \<^verbatim>\<open>maps.radar.past\<close>, \<^verbatim>\<open>maps.radar.nowcast\<close> (each possibly missing) and the
  \<^verbatim>\<open>time\<close> of a frame.
\<close>

record frame =
  time :: int
  path :: string

record radar_maps =
  radar_past :: "frame list option"
  radar_nowcast :: "frame list option"

record weather_maps =
  radar :: "radar_maps option"

text \<open>The object returned by \<^verbatim>\<open>getRadarTimestamps\<close>.\<close>

record radar_timestamps =
  past :: "int list"
  nowcast :: "int list"
  all :: "int list"
  current :: "int option"

text \<open>
  \<^verbatim>\<open>maps.radar?.past || []\<close> and \<^verbatim>\<open>maps.radar?.nowcast || []\<close>.  An array, also an empty one,
  is truthy, so only a missing \<^verbatim>\<open>radar\<close> or a missing list gives the \<^verbatim>\<open>[]\<close> on the right.
\<close>

definition pastFrames :: "weather_maps \<Rightarrow> frame list" where
  "pastFrames maps =
     (case radar maps of None \<Rightarrow> []
      | Some r \<Rightarrow> (case radar_past r of None \<Rightarrow> [] | Some fs \<Rightarrow> fs))"

definition nowcastFrames :: "weather_maps \<Rightarrow> frame list" where
  "nowcastFrames maps =
     (case radar maps of None \<Rightarrow> []
      | Some r \<Rightarrow> (case radar_nowcast r of None \<Rightarrow> [] | Some fs \<Rightarrow> fs))"

text \<open>
  \<^verbatim>\<open>getRadarTimestamps\<close>: the argument is the settled \<^verbatim>\<open>await this.getAvailableMaps()\<close>; a
  rejection passes through the \<^verbatim>\<open>async\<close> function unchanged.
\<close>

definition getRadarTimestamps :: "weather_maps settled \<Rightarrow> radar_timestamps settled" where
  "getRadarTimestamps availableMaps =
     (case availableMaps of
        Inl e \<Rightarrow> Inl e
      | Inr maps \<Rightarrow>
          (let pastTimestamps = map time (pastFrames maps);
               nowcastTimestamps = map time (nowcastFrames maps)
           in Inr \<lparr>past = pastTimestamps,
                   nowcast = nowcastTimestamps,
                   all = pastTimestamps @ nowcastTimestamps,
                   current =
                     (if length pastTimestamps > 0
                      then Some (pastTimestamps ! (length pastTimestamps - 1))
                      else None)\<rparr>))"

text \<open>The object returned by \<^verbatim>\<open>getRadarSeries\<close> and the elements of its \<^verbatim>\<open>series\<close>.\<close>

record series_frame =
  ts :: int
  isPast :: bool

record series_metadata =
  source :: string
  updateInterval :: int

record radar_series =
  series :: "series_frame list"
  series_current :: "int option"
  metadata :: series_metadata

text \<open>
  \<^verbatim>\<open>getRadarSeries\<close>: every timestamp of \<^verbatim>\<open>timestamps.all\<close> is flagged by
  \<^verbatim>\<open>timestamps.past.includes(ts)\<close>, a lookup by value.
\<close>

definition getRadarSeries :: "weather_maps settled \<Rightarrow> radar_series settled" where
  "getRadarSeries availableMaps =
     (case getRadarTimestamps availableMaps of
        Inl e \<Rightarrow> Inl e
      | Inr timestamps \<Rightarrow>
          Inr \<lparr>series = map (\<lambda>t. \<lparr>ts = t, isPast = (t \<in> set (past timestamps))\<rparr>)
                            (all timestamps),
               series_current = current timestamps,
               metadata = \<lparr>source = ''RainViewer'', updateInterval = 300000\<rparr>\<rparr>)"

text \<open>
  The ordering invariant of an imagery timeline, in the words of the specification: no frame
  with \<open>isPast = false\<close> comes before a frame with \<open>isPast = true\<close>, and the timestamps of each
  of the two groups ascend (equal neighbours allowed, as for a chronological list).
\<close>

definition timeline_ordered :: "series_frame list \<Rightarrow> bool" where
  "timeline_ordered fs =
     (sorted_wrt (\<lambda>f g. isPast g \<longrightarrow> isPast f) fs
      \<and> sorted (map ts (filter isPast fs))
      \<and> sorted (map ts (filter (\<lambda>f. \<not> isPast f) fs)))"

subsection \<open>RainViewer: tile addresses\<close>

text \<open>
  A number inside a template literal is printed in decimal; for the integers (of a magnitude
  below \<open>10\<^sup>2\<^sup>1\<close>, which covers timestamps and tile coordinates) this is the digit string,
  with a minus sign in front of a negative one.
\<close>

definition digitChar :: "nat \<Rightarrow> char" where
  "digitChar d = ''0123456789'' ! d"

fun digitsOf :: "nat \<Rightarrow> string" where
  "digitsOf n = (if n < 10 then [digitChar n] else digitsOf (n div 10) @ [digitChar (n mod 10)])"

declare digitsOf.simps [simp del]

definition numToString :: "int \<Rightarrow> string" where
  "numToString i = (if i < 0 then CHR ''-'' # digitsOf (nat (- i)) else digitsOf (nat i))"

text \<open>
  The \<^verbatim>\<open>options\<close> argument of the tile methods; a field is \<open>None\<close> when the property is
  missing, and the default argument \<^verbatim>\<open>{}\<close> has every field missing.
\<close>

record tile_options =
  opt_size :: "int option"
  opt_color :: "int option"
  opt_smooth :: "int option"
  opt_snow :: "int option"

definition noOptions :: tile_options where
  "noOptions = \<lparr>opt_size = None, opt_color = None, opt_smooth = None, opt_snow = None\<rparr>"

text \<open>
  \<^verbatim>\<open>getRadarTileUrl\<close>; the first argument is \<^verbatim>\<open>this.tileBaseUrl\<close>, the only part of the adapter
  that the method reads.  The constant \<^verbatim>\<open>snow\<close> is computed and not used, as in the source.
\<close>

definition getRadarTileUrl ::
    "string \<Rightarrow> int \<Rightarrow> int \<Rightarrow> int \<Rightarrow> int \<Rightarrow> tile_options \<Rightarrow> string" where
  "getRadarTileUrl tileBaseUrl timestamp z x y options =
     (let size = js_or (opt_size options) 256;
          color = js_or (opt_color options) 1;
          smooth = js_or (opt_smooth options) 1;
          snow = js_or (opt_snow options) 1
      in tileBaseUrl @ ''/v2/radar/'' @ numToString timestamp @ ''/'' @ numToString z
           @ ''/'' @ numToString x @ ''/'' @ numToString y @ ''/'' @ numToString size
           @ ''/'' @ numToString color @ ''_'' @ numToString smooth @ ''.png'')"

text \<open>\<^verbatim>\<open>getColorSchemes\<close>: the nine colour schemes, numbered 0 to 8.\<close>

definition getColorSchemes :: "(int \<times> string) list" where
  "getColorSchemes =
     [(0, ''Original''), (1, ''Universal Blue''), (2, ''TITAN''),
      (3, ''The Weather Channel''), (4, ''Meteored''), (5, ''NEXRAD Level III''),
      (6, ''RAINBOW @ SELEX-SI''), (7, ''Dark Sky''), (8, ''Black & White'')]"

subsection \<open>The network and the console\<close>

text \<open>
  What one \<^verbatim>\<open>fetch\<close> meets: no reply (the promise of \<^verbatim>\<open>fetch\<close> rejects), or a reply with a
  status and a body; the body is \<open>None\<close> when \<^verbatim>\<open>response.json()\<close> cannot parse it.
  \<^verbatim>\<open>response.ok\<close> is the Fetch standard's test of the status, 200 to 299.
\<close>

datatype 'v reply = NoReply | Reply int "'v option"

definition response_ok :: "int \<Rightarrow> bool" where
  "response_ok status = (200 \<le> status \<and> status \<le> 299)"

text \<open>
  The clock and the network as one call of \<^verbatim>\<open>_fetchWithCache\<close> meets them: \<^verbatim>\<open>Date.now()\<close>
  when the call starts, the reply to its request, and \<^verbatim>\<open>Date.now()\<close> when the parsed body
  is stored.  The last two are read only if the call issues a request.
\<close>

record 'v exchange =
  asked_at :: int
  answer :: "'v reply"
  answered_at :: int

text \<open>Observable effects, in order: requests issued and lines written to the console.\<close>

datatype console_level = LogLevel | WarnLevel | ErrorLevel

datatype console_arg = Str string | Err js_error

datatype event = Fetch string | Console console_level "console_arg list"

fun is_fetch :: "event \<Rightarrow> bool" where
  "is_fetch (Fetch url) = True"
| "is_fetch (Console level args) = False"

subsection \<open>OpenWeatherMap: the cached fetch\<close>

record 'v cache_entry =
  data :: 'v
  timestamp :: int

record 'v owm_adapter =
  apiKey :: string
  corsProxyUrl :: string
  baseUrl :: string
  cache :: "string \<rightharpoonup> 'v cache_entry"
  cacheTTL :: int

text \<open>The constructor: an empty cache and a time to live of ten minutes, in milliseconds.\<close>

definition newOpenWeatherMapAdapter :: "string \<Rightarrow> string \<Rightarrow> 'v owm_adapter" where
  "newOpenWeatherMapAdapter key proxy =
     \<lparr>apiKey = key, corsProxyUrl = proxy, baseUrl = ''https://api.openweathermap.org'',
      cache = Map.empty, cacheTTL = 10 * 60 * 1000\<rparr>"

text \<open>
  \<^verbatim>\<open>_fetchWithCache\<close> suspends once, at \<^verbatim>\<open>await fetch(...)\<close>, so it is modelled in two steps.

  \<open>fetchStart\<close> is the part that runs when the method is called (lines 22 to 29): the cache
  lookup, the freshness test and, without a fresh entry, the request.  It leaves the adapter
  as it is.  When a request is issued it hands on \<^verbatim>\<open>cached\<close>, the constant that the rest of the
  method still refers to.
\<close>

datatype 'v started = Cached 'v | Requested "'v cache_entry option"

definition fetchStart ::
    "'v owm_adapter \<Rightarrow> string \<Rightarrow> string \<Rightarrow> int \<Rightarrow> 'v started \<times> event list" where
  "fetchStart a url cacheKey now =
     (let cached = cache a cacheKey;
          request = (Requested cached, [Fetch (corsProxyUrl a @ url)])
      in case cached of
           None \<Rightarrow> request
         | Some c \<Rightarrow>
             if now - timestamp c < cacheTTL a
             then (Cached (data c),
                   [Console LogLevel [Str ''Using cached data for:'', Str cacheKey]])
             else request)"

text \<open>The \<^verbatim>\<open>try\<close> block up to the parsed body (lines 29 to 33): what it yields or throws.\<close>

definition tryFetch :: "'v reply \<Rightarrow> 'v settled" where
  "tryFetch r =
     (case r of
        NoReply \<Rightarrow> Inl NetworkError
      | Reply status body \<Rightarrow>
          if \<not> response_ok status then Inl (HttpError status)
          else (case body of None \<Rightarrow> Inl SyntaxError | Some d \<Rightarrow> Inr d))"

text \<open>
  \<open>fetchFinish\<close> is the part that runs when the reply is there (lines 30 to 49): on success
  the entry is written with the clock of that moment; on failure the \<^verbatim>\<open>catch\<close> block falls
  back to \<^verbatim>\<open>cached\<close>, the entry read when the call started, or rethrows.
\<close>

definition fetchFinish ::
    "'v owm_adapter \<Rightarrow> 'v cache_entry option \<Rightarrow> string \<Rightarrow> 'v reply \<Rightarrow> int
       \<Rightarrow> 'v settled \<times> 'v owm_adapter \<times> event list" where
  "fetchFinish a cached cacheKey r now =
     (case tryFetch r of
        Inr d \<Rightarrow>
          (Inr d, a\<lparr>cache := (cache a)(cacheKey \<mapsto> \<lparr>data = d, timestamp = now\<rparr>)\<rparr>, [])
      | Inl error \<Rightarrow>
          (case cached of
             Some c \<Rightarrow>
               (Inr (data c), a,
                [Console ErrorLevel [Str ''API fetch error:'', Err error],
                 Console WarnLevel [Str ''Using expired cache due to fetch error'']])
           | None \<Rightarrow>
               (Inl error, a, [Console ErrorLevel [Str ''API fetch error:'', Err error]])))"

text \<open>A started call settles at once when it found a fresh entry, else on its reply.\<close>

definition settle ::
    "'v owm_adapter \<Rightarrow> 'v started \<Rightarrow> string \<Rightarrow> 'v exchange
       \<Rightarrow> 'v settled \<times> 'v owm_adapter \<times> event list" where
  "settle a s cacheKey x =
     (case s of
        Cached d \<Rightarrow> (Inr d, a, [])
      | Requested cached \<Rightarrow> fetchFinish a cached cacheKey (answer x) (answered_at x))"

text \<open>\<^verbatim>\<open>_fetchWithCache\<close> called and awaited on its own: the two steps in a row.\<close>

definition fetchWithCache ::
    "'v owm_adapter \<Rightarrow> string \<Rightarrow> string \<Rightarrow> 'v exchange
       \<Rightarrow> 'v settled \<times> 'v owm_adapter \<times> event list" where
  "fetchWithCache a url cacheKey x =
     (case fetchStart a url cacheKey (asked_at x) of
        (s, evs) \<Rightarrow>
          (case settle a s cacheKey x of
             (res, a', evs') \<Rightarrow> (res, a', evs @ evs')))"

text \<open>
  The failures named by the specification, in its words: a transport error, or a reply
  whose status is not 2xx.
\<close>

definition fetch_failed :: "'v reply \<Rightarrow> bool" where
  "fetch_failed r =
     (case r of NoReply \<Rightarrow> True | Reply status body \<Rightarrow> status < 200 \<or> 299 < status)"

subsection \<open>OpenWeatherMap: the two weather requests\<close>

text \<open>
  \<^verbatim>\<open>lat\<close> and \<^verbatim>\<open>lon\<close> only ever appear inside template literals, so they are taken as the
  text that the literal prints for them.
\<close>

definition oneCallUrl :: "'v owm_adapter \<Rightarrow> string \<Rightarrow> string \<Rightarrow> string" where
  "oneCallUrl a lat lon =
     baseUrl a @ ''/data/3.0/onecall?'' @ ''lat='' @ lat @ ''&lon='' @ lon @ ''&''
       @ ''units=imperial&'' @ ''exclude=minutely&'' @ ''appid='' @ apiKey a"

definition oneCallKey :: "string \<Rightarrow> string \<Rightarrow> string" where
  "oneCallKey lat lon = ''onecall_'' @ lat @ ''_'' @ lon"


definition airQualityUrl :: "'v owm_adapter \<Rightarrow> string \<Rightarrow> string \<Rightarrow> string" where
  "airQualityUrl a lat lon =
     baseUrl a @ ''/data/2.5/air_pollution?'' @ ''lat='' @ lat @ ''&lon='' @ lon @ ''&''
       @ ''appid='' @ apiKey a"

definition airQualityKey :: "string \<Rightarrow> string \<Rightarrow> string" where
  "airQualityKey lat lon = ''airquality_'' @ lat @ ''_'' @ lon"


subsection \<open>OpenWeatherMap: the snapshot of one location\<close>

text \<open>
  The two documents that the weather requests return, with the properties that
  \<^verbatim>\<open>getCompleteWeatherData\<close> and the \<^verbatim>\<open>transform\<close> methods read from them.  Their leaves
  (the current conditions, one hour, one day, one alert, one air quality entry, a time zone,
  a coordinate) have the opaque type \<open>'j\<close>: a leaf is any JSON value, also \<^verbatim>\<open>undefined\<close>.
  \<open>oc_hourly\<close> and \<open>oc_daily\<close> are \<open>None\<close> when the document has no such array, \<open>oc_alerts\<close>
  and \<open>ap_list\<close> when the property is missing.
\<close>

record 'j onecall =
  oc_current :: 'j
  oc_hourly :: "'j list option"
  oc_daily :: "'j list option"
  oc_alerts :: "'j list option"
  oc_timezone :: 'j
  oc_lat :: 'j
  oc_lon :: 'j

record 'j air_pollution =
  ap_list :: "'j list option"

datatype 'j body = OneCall "'j onecall" | AirPollution "'j air_pollution"

text \<open>
  The conversions of a single leaf are arithmetic on floating point numbers, string
  handling and date formatting; they are parameters of the model.  Each of them can throw:
  the source reads \<^verbatim>\<open>weather[0].description\<close> (lines 110, 140, 163), \<^verbatim>\<open>day.temp.max\<close>,
  \<^verbatim>\<open>alert.event.toLowerCase()\<close> and \<^verbatim>\<open>aqi.components.pm2_5\<close>, a \<^verbatim>\<open>TypeError\<close> when the object
  read from is missing, and \<^verbatim>\<open>_formatLocalTime\<close> calls \<^verbatim>\<open>toISOString\<close>, a \<^verbatim>\<open>RangeError\<close> on a
  missing time.  So a conversion yields an error or a converted leaf, of type \<open>'k\<close>, and
  nothing is assumed about which.
  \<^item> \<open>transformCurrentConditions\<close> is the method of that name (current conditions, time zone);
  \<^item> \<open>hourly_item\<close>, \<open>daily_item\<close> and \<open>alert_item\<close> are the arrow functions mapped over the
    arrays by \<^verbatim>\<open>transformHourlyForecast\<close>, \<^verbatim>\<open>transformDailyForecast\<close> (which also reads the
    index) and \<^verbatim>\<open>transformAlerts\<close>;
  \<^item> \<open>air_item\<close> is what \<^verbatim>\<open>transformAirQuality\<close> makes of the first entry of the list.
\<close>

record ('j, 'k) normalizer =
  transformCurrentConditions :: "'j \<Rightarrow> 'j \<Rightarrow> 'k settled"
  hourly_item :: "'j \<Rightarrow> 'j \<Rightarrow> 'k settled"
  daily_item :: "nat \<Rightarrow> 'j \<Rightarrow> 'j \<Rightarrow> 'k settled"
  alert_item :: "'j \<Rightarrow> 'k settled"
  air_item :: "'j \<Rightarrow> 'k settled"

text \<open>
  \<^verbatim>\<open>Array.prototype.map\<close> with a callback that can throw: the elements are converted from
  the left, and the first error ends the loop.
\<close>

fun mapOrThrow :: "('a \<Rightarrow> 'b settled) \<Rightarrow> 'a list \<Rightarrow> 'b list settled" where
  "mapOrThrow f [] = Inr []"
| "mapOrThrow f (x # xs) =
     (case f x of
        Inl e \<Rightarrow> Inl e
      | Inr y \<Rightarrow> (case mapOrThrow f xs of Inl e \<Rightarrow> Inl e | Inr ys \<Rightarrow> Inr (y # ys)))"

definition transformHourlyForecast ::
    "('j, 'k) normalizer \<Rightarrow> 'j list \<Rightarrow> 'j \<Rightarrow> 'k list settled" where
  "transformHourlyForecast xf owmHourly tz =
     mapOrThrow (\<lambda>hour. hourly_item xf hour tz) owmHourly"

definition transformDailyForecast ::
    "('j, 'k) normalizer \<Rightarrow> 'j list \<Rightarrow> 'j \<Rightarrow> 'k list settled" where
  "transformDailyForecast xf owmDaily tz =
     mapOrThrow (\<lambda>(index, day). daily_item xf index day tz) (enumerate 0 owmDaily)"

definition transformAlerts :: "('j, 'k) normalizer \<Rightarrow> 'j list option \<Rightarrow> 'k list settled" where
  "transformAlerts xf owmAlerts =
     (case owmAlerts of
        None \<Rightarrow> Inr []
      | Some alerts \<Rightarrow>
          if length alerts = 0 then Inr [] else mapOrThrow (alert_item xf) alerts)"

text \<open>
  \<^verbatim>\<open>transformAirQuality\<close>: a document without a \<^verbatim>\<open>list\<close> (as a One Call document is) or with an
  empty one gives \<^verbatim>\<open>null\<close>.
\<close>

definition transformAirQuality ::
    "('j, 'k) normalizer \<Rightarrow> 'j body \<Rightarrow> 'k option settled" where
  "transformAirQuality xf owmAirQuality =
     (case owmAirQuality of
        OneCall d \<Rightarrow> Inr None
      | AirPollution q \<Rightarrow>
          (case ap_list q of
             None \<Rightarrow> Inr None
           | Some entries \<Rightarrow>
               if length entries = 0 then Inr None
               else (case air_item xf (entries ! 0) of
                       Inl e \<Rightarrow> Inl e
                     | Inr quality \<Rightarrow> Inr (Some quality))))"

text \<open>The object returned by \<^verbatim>\<open>getCompleteWeatherData\<close>.\<close>

record ('j, 'k) snapshot =
  snap_current :: 'k
  snap_hourly :: "'k list"
  snap_daily :: "'k list"
  snap_alerts :: "'k list"
  snap_airQuality :: "'k option"
  snap_timezone :: 'j
  snap_lat :: 'j
  snap_lon :: 'j

text \<open>
  The object literal of lines 409 to 418.  Its properties are evaluated from the top, so
  the first conversion that throws ends the evaluation with its error.  A document without
  \<^verbatim>\<open>current\<close> (as an air pollution document is) makes \<^verbatim>\<open>transformCurrentConditions\<close> read a
  property of \<^verbatim>\<open>undefined\<close>, and a document without the array \<^verbatim>\<open>hourly\<close> or \<^verbatim>\<open>daily\<close> makes
  \<^verbatim>\<open>.slice\<close> fail; both are a \<^verbatim>\<open>TypeError\<close>.
\<close>

definition buildSnapshot ::
    "('j, 'k) normalizer \<Rightarrow> 'j body \<Rightarrow> 'j body option \<Rightarrow> ('j, 'k) snapshot settled" where
  "buildSnapshot xf oneCallData airQualityData =
     (case oneCallData of
        AirPollution q \<Rightarrow> Inl TypeError
      | OneCall d \<Rightarrow>
     (case transformCurrentConditions xf (oc_current d) (oc_timezone d) of
        Inl e \<Rightarrow> Inl e
      | Inr currentConditions \<Rightarrow>
     (case oc_hourly d of
        None \<Rightarrow> Inl TypeError
      | Some owmHourly \<Rightarrow>
     (case transformHourlyForecast xf (take 48 owmHourly) (oc_timezone d) of
        Inl e \<Rightarrow> Inl e
      | Inr hourly \<Rightarrow>
     (case oc_daily d of
        None \<Rightarrow> Inl TypeError
      | Some owmDaily \<Rightarrow>
     (case transformDailyForecast xf (take 8 owmDaily) (oc_timezone d) of
        Inl e \<Rightarrow> Inl e
      | Inr daily \<Rightarrow>
     (case transformAlerts xf (oc_alerts d) of
        Inl e \<Rightarrow> Inl e
      | Inr alerts \<Rightarrow>
     (case (case airQualityData of
              None \<Rightarrow> Inr None
            | Some q \<Rightarrow> transformAirQuality xf q) of
        Inl e \<Rightarrow> Inl e
      | Inr airQuality \<Rightarrow>
          Inr \<lparr>snap_current = currentConditions,
               snap_hourly = hourly,
               snap_daily = daily,
               snap_alerts = alerts,
               snap_airQuality = airQuality,
               snap_timezone = oc_timezone d,
               snap_lat = oc_lat d,
               snap_lon = oc_lon d\<rparr>))))))))"

text \<open>
  \<^verbatim>\<open>.catch(e => { console.warn('Air quality data unavailable:', e); return null; })\<close> on the
  promise of \<^verbatim>\<open>getAirQuality\<close>.
\<close>

definition catchAirQuality :: "'v settled \<Rightarrow> 'v option \<times> event list" where
  "catchAirQuality p =
     (case p of
        Inl e \<Rightarrow> (None, [Console WarnLevel [Str ''Air quality data unavailable:'', Err e]])
      | Inr d \<Rightarrow> (Some d, []))"

text \<open>
  \<^verbatim>\<open>getCompleteWeatherData\<close>.  Both methods are called while the array given to
  \<^verbatim>\<open>Promise.all\<close> is built, so both run up to their \<^verbatim>\<open>await fetch(...)\<close> (\<open>fetchStart\<close>, on the
  same adapter) before either reply is handled.  The replies then come in either order;
  \<open>airFirst\<close> says which, and the adapter is threaded through the two \<open>settle\<close> steps in that
  order.  \<^verbatim>\<open>Promise.all\<close> rejects as soon as the One Call promise rejects, which is when the
  \<^verbatim>\<open>catch\<close> block logs and rethrows; the air quality promise cannot reject, because of its
  own \<^verbatim>\<open>.catch\<close>.  An error thrown while the snapshot is built is inside the same \<^verbatim>\<open>try\<close> and
  is logged and rethrown as well.  The adapter returned is the one after both calls have
  settled.
\<close>

definition getCompleteWeatherData ::
    "('j, 'k) normalizer \<Rightarrow> 'j body owm_adapter \<Rightarrow> string \<Rightarrow> string
       \<Rightarrow> 'j body exchange \<Rightarrow> 'j body exchange \<Rightarrow> bool
       \<Rightarrow> ('j, 'k) snapshot settled \<times> 'j body owm_adapter \<times> event list" where
  "getCompleteWeatherData xf a lat lon x1 x2 airFirst =
     (case fetchStart a (oneCallUrl a lat lon) (oneCallKey lat lon) (asked_at x1) of
        (s1, started1) \<Rightarrow>
     (case fetchStart a (airQualityUrl a lat lon) (airQualityKey lat lon) (asked_at x2) of
        (s2, started2) \<Rightarrow>
     (case (if airFirst
            then (case settle a s2 (airQualityKey lat lon) x2 of
                    (r2, a', evs2) \<Rightarrow>
                 (case settle a' s1 (oneCallKey lat lon) x1 of
                    (r1, a'', evs1) \<Rightarrow> (r1, r2, a'', evs1, evs2)))
            else (case settle a s1 (oneCallKey lat lon) x1 of
                    (r1, a', evs1) \<Rightarrow>
                 (case settle a' s2 (airQualityKey lat lon) x2 of
                    (r2, a'', evs2) \<Rightarrow> (r1, r2, a'', evs1, evs2)))) of
        (oneCallSettled, airSettled, a'', evs1, evs2) \<Rightarrow>
     (case catchAirQuality airSettled of
        (airQualityData, caught) \<Rightarrow>
          (let result =
                 (case oneCallSettled of
                    Inl error \<Rightarrow> Inl error
                  | Inr oneCallData \<Rightarrow> buildSnapshot xf oneCallData airQualityData);
               rethrown =
                 (case result of
                    Inl error \<Rightarrow>
                      [Console ErrorLevel
                         [Str ''Error fetching complete weather data:'', Err error]]
                  | Inr snapshot \<Rightarrow> []);
               settled =
                 (if airFirst then evs2 @ caught @ evs1 @ rethrown
                  else (case oneCallSettled of
                          Inl error \<Rightarrow> evs1 @ rethrown @ evs2 @ caught
                        | Inr oneCallData \<Rightarrow> evs1 @ evs2 @ caught @ rethrown))
           in (result, a'', started1 @ started2 @ settled))))))"

subsection \<open>OpenWeatherMap: a batch of locations\<close>

text \<open>
  \<^verbatim>\<open>Promise.all\<close> on promises that have settled: fulfilled with the values in the order of
  the array when all are fulfilled, rejected when one is rejected.  With several rejections
  JavaScript takes the one that happened first; the model takes the first of the array.
  The adapters never give \<^verbatim>\<open>Promise.all\<close> more than one promise that can reject.
\<close>

fun promiseAll :: "'a settled list \<Rightarrow> 'a list settled" where
  "promiseAll [] = Inr []"
| "promiseAll (p # ps) =
     (case p of
        Inl e \<Rightarrow> Inl e
      | Inr v \<Rightarrow> (case promiseAll ps of Inl e \<Rightarrow> Inl e | Inr vs \<Rightarrow> Inr (v # vs)))"

record location =
  loc_lat :: string
  loc_lon :: string

text \<open>
  \<^verbatim>\<open>getBatchWeatherData\<close>.  \<open>complete i lat lon\<close> is how the call
  \<^verbatim>\<open>this.getCompleteWeatherData(loc.lat, loc.lon)\<close> made for the element at index \<open>i\<close> settles.
  The calls run interleaved on one adapter, so the model takes their outcomes as given,
  whatever they are, and embeds what the method itself does with them: the \<^verbatim>\<open>.catch\<close> on each
  promise, which logs and yields \<^verbatim>\<open>null\<close>, and the \<^verbatim>\<open>Promise.all\<close> over the array.  The
  console lines are listed by index; they are written in the order in which the calls fail.
\<close>

definition getBatchWeatherData ::
    "(nat \<Rightarrow> string \<Rightarrow> string \<Rightarrow> 's settled) \<Rightarrow> location list
       \<Rightarrow> 's option list settled \<times> event list" where
  "getBatchWeatherData complete locations =
     (let promises =
            map (\<lambda>(i, loc).
                   case complete i (loc_lat loc) (loc_lon loc) of
                     Inl error \<Rightarrow>
                       (Inr None,
                        [Console ErrorLevel
                           [Str (''Error fetching weather for '' @ loc_lat loc @ '','' @ loc_lon loc
                                   @ '':''),
                            Err error]])
                   | Inr snapshot \<Rightarrow> (Inr (Some snapshot), []))
                (enumerate 0 locations)
      in (promiseAll (map fst promises), concat (map snd promises)))"

section \<open>Properties\<close>

subsection \<open>Icon codes\<close>

lemma iconMap_values: "(k, v) \<in> set (iconMap night) \<Longrightarrow> 0 \<le> v \<and> v \<le> 41"
  by (auto simp: iconMap_def)

text \<open>
  Claim C4.  For every numeric condition identifier, inside or outside the provider's range,
  and for every icon suffix (also a missing one), \<open>mapOWMIconToWeathercom\<close> returns an icon
  code: a number from 1 to 44, never \<^verbatim>\<open>undefined\<close>.  An identifier that the table does not
  hold gives the sentinel 44, and an identifier that the table maps to a code other than 0
  gives that code.
\<close>

theorem mapOWMIconToWeathercom_total:
  "0 < mapOWMIconToWeathercom weatherId iconCode
   \<and> mapOWMIconToWeathercom weatherId iconCode \<le> 44
   \<and> (map_of (iconMap (isNight iconCode)) weatherId = None \<longrightarrow>
        mapOWMIconToWeathercom weatherId iconCode = 44)
   \<and> (\<forall>v. map_of (iconMap (isNight iconCode)) weatherId = Some v \<and> v \<noteq> 0 \<longrightarrow>
        mapOWMIconToWeathercom weatherId iconCode = v)"
proof (cases "map_of (iconMap (isNight iconCode)) weatherId")
  case None
  then show ?thesis by (simp add: mapOWMIconToWeathercom_def js_or_def)
next
  case (Some v)
  then have "(weatherId, v) \<in> set (iconMap (isNight iconCode))" by (rule map_of_SomeD)
  then have "0 \<le> v \<and> v \<le> 41" by (rule iconMap_values)
  with Some show ?thesis by (simp add: mapOWMIconToWeathercom_def js_or_def)
qed

text \<open>
  The identifier 999 and the negative identifier \<open>-5\<close> are not in the table and give 44;
  clear sky at night (800 with the suffix \<open>n\<close>) gives 31.
\<close>

theorem mapOWMIconToWeathercom_total_witness:
  "map_of (iconMap (isNight (Some ''04d''))) 999 = None
   \<and> mapOWMIconToWeathercom 999 (Some ''04d'') = 44
   \<and> map_of (iconMap (isNight (Some ''01n''))) 800 = Some 31
   \<and> mapOWMIconToWeathercom 800 (Some ''01n'') = 31
   \<and> mapOWMIconToWeathercom (- 5) None = 44"
proof -
  have a: "map_of (iconMap (isNight (Some ''04d''))) 999 = None"
    by (simp add: iconMap_def)
  have b: "map_of (iconMap (isNight (Some ''01n''))) 800 = Some 31"
    by (simp add: iconMap_def isNight_def endsWith_def suffix_def)
  have c: "map_of (iconMap (isNight None)) (- 5) = None"
    by (simp add: iconMap_def)
  from mapOWMIconToWeathercom_total [of 999 "Some ''04d''"]
       mapOWMIconToWeathercom_total [of 800 "Some ''01n''"]
       mapOWMIconToWeathercom_total [of "- 5" None] a b c
  show ?thesis by simp
qed

text \<open>
  Claim C10.  The table maps the identifier 781 (tornado) to the icon code 0, and
  \<open>mapOWMIconToWeathercom\<close> returns the sentinel 44 for it, by day and by night: in
  \<^verbatim>\<open>iconMap[weatherId] || 44\<close> the value 0 is falsy, as a missing entry is.
\<close>

theorem tornado_gets_sentinel:
  "map_of (iconMap night) 781 = Some 0 \<and> mapOWMIconToWeathercom 781 iconCode = 44"
  by (simp add: mapOWMIconToWeathercom_def iconMap_def js_or_def)

subsection \<open>Alert severity\<close>

text \<open>\<open>str_includes\<close> is the occurrence of a substring.\<close>

lemma str_includes_iff: "str_includes s sub \<longleftrightarrow> (\<exists>p q. s = p @ sub @ q)"
proof (induction s)
  case Nil
  then show ?case by auto
next
  case (Cons c cs)
  show ?case
  proof
    assume "str_includes (c # cs) sub"
    then consider "prefix sub (c # cs)" | "str_includes cs sub" by auto
    then show "\<exists>p q. c # cs = p @ sub @ q"
    proof cases
      case 1
      then obtain q where "c # cs = sub @ q" by (auto simp: prefix_def)
      then have "c # cs = [] @ sub @ q" by simp
      then show ?thesis by blast
    next
      case 2
      with Cons.IH obtain p q where "cs = p @ sub @ q" by blast
      then have "c # cs = (c # p) @ sub @ q" by simp
      then show ?thesis by blast
    qed
  next
    assume "\<exists>p q. c # cs = p @ sub @ q"
    then obtain p q where pq: "c # cs = p @ sub @ q" by blast
    show "str_includes (c # cs) sub"
    proof (cases p)
      case Nil
      with pq have "prefix sub (c # cs)" by (simp add: prefix_def)
      then show ?thesis by simp
    next
      case (Cons a p')
      with pq have "cs = p' @ sub @ q" by simp
      with Cons.IH have "str_includes cs sub" by blast
      then show ?thesis by simp
    qed
  qed
qed

text \<open>
  Claim C6, as stated, gives the lowest tier 2 to an absent tag list.  The method returns the
  middle tier 3 for it: its first statement is \<^verbatim>\<open>if (!tags) return 3\<close>.
\<close>

theorem getAlertSeverity_absent_counterexample:
  "getAlertSeverity None = 3 \<and> getAlertSeverity None \<noteq> 2"
  by (simp add: getAlertSeverity_def)

text \<open>
  Claim C6, amended.  \<open>getAlertSeverity\<close> matches substrings of the lower-cased tags, with
  \<open>extreme\<close> tested before \<open>severe\<close>.  For every tag list that is present: if some tag
  contains \<open>extreme\<close> the result is 4; otherwise, if some tag contains \<open>severe\<close>, it is 3;
  otherwise it is 2.  For an absent tag list the result is 3.
\<close>

theorem getAlertSeverity_tiers:
  "getAlertSeverity None = 3
   \<and> ((\<exists>t\<in>set tags. \<exists>p q. toLowerCase t = p @ ''extreme'' @ q) \<longrightarrow>
        getAlertSeverity (Some tags) = 4)
   \<and> (\<not> (\<exists>t\<in>set tags. \<exists>p q. toLowerCase t = p @ ''extreme'' @ q)
        \<and> (\<exists>t\<in>set tags. \<exists>p q. toLowerCase t = p @ ''severe'' @ q) \<longrightarrow>
        getAlertSeverity (Some tags) = 3)
   \<and> (\<not> (\<exists>t\<in>set tags. \<exists>p q. toLowerCase t = p @ ''extreme'' @ q)
        \<and> \<not> (\<exists>t\<in>set tags. \<exists>p q. toLowerCase t = p @ ''severe'' @ q) \<longrightarrow>
        getAlertSeverity (Some tags) = 2)"
  by (simp add: getAlertSeverity_def list_ex_iff str_includes_iff)

theorem getAlertSeverity_tiers_witness:
  "getAlertSeverity (Some [''Wind'', ''Severe Storm'', ''EXTREME'']) = 4
   \<and> getAlertSeverity (Some [''Flood'', ''Severe Thunderstorm'']) = 3
   \<and> getAlertSeverity (Some [''Flood'', ''Rain'']) = 2
   \<and> getAlertSeverity (Some []) = 2"
proof -
  have e1: "\<exists>t\<in>set [''Wind'', ''Severe Storm'', ''EXTREME''].
              \<exists>p q. toLowerCase t = p @ ''extreme'' @ q"
    unfolding str_includes_iff [symmetric] by code_simp
  have e2: "\<not> (\<exists>t\<in>set [''Flood'', ''Severe Thunderstorm''].
                 \<exists>p q. toLowerCase t = p @ ''extreme'' @ q)"
    unfolding str_includes_iff [symmetric] by code_simp
  have s2: "\<exists>t\<in>set [''Flood'', ''Severe Thunderstorm''].
              \<exists>p q. toLowerCase t = p @ ''severe'' @ q"
    unfolding str_includes_iff [symmetric] by code_simp
  have e3: "\<not> (\<exists>t\<in>set [''Flood'', ''Rain'']. \<exists>p q. toLowerCase t = p @ ''extreme'' @ q)"
    unfolding str_includes_iff [symmetric] by code_simp
  have s3: "\<not> (\<exists>t\<in>set [''Flood'', ''Rain'']. \<exists>p q. toLowerCase t = p @ ''severe'' @ q)"
    unfolding str_includes_iff [symmetric] by code_simp
  from getAlertSeverity_tiers [of "[''Wind'', ''Severe Storm'', ''EXTREME'']"] e1
  have "getAlertSeverity (Some [''Wind'', ''Severe Storm'', ''EXTREME'']) = 4" by blast
  moreover from getAlertSeverity_tiers [of "[''Flood'', ''Severe Thunderstorm'']"] e2 s2
  have "getAlertSeverity (Some [''Flood'', ''Severe Thunderstorm'']) = 3" by blast
  moreover from getAlertSeverity_tiers [of "[''Flood'', ''Rain'']"] e3 s3
  have "getAlertSeverity (Some [''Flood'', ''Rain'']) = 2" by blast
  moreover from getAlertSeverity_tiers [of "[]"]
  have "getAlertSeverity (Some []) = 2" by simp
  ultimately show ?thesis by blast
qed

subsection \<open>The cached fetch\<close>

lemma tryFetch_failed: "fetch_failed r \<Longrightarrow> \<exists>e. tryFetch r = Inl e"
  by (auto simp: fetch_failed_def tryFetch_def response_ok_def split: reply.splits)

text \<open>
  Claim C1.  Let the fetch of a call of \<open>fetchWithCache\<close> fail, by a transport error or a
  status that is not 2xx.  For every key: if the cache holds an entry for the key that is no
  longer fresh, the call returns the data of that entry, leaves the adapter (and so the
  entry) as it was, and writes a warning to the console after the error line; if the cache
  holds no entry for the key, the call fails with the error that the fetch raised.
\<close>

theorem fetchWithCache_stale_on_error:
  assumes "fetch_failed (answer x)"
  shows "(\<forall>c. cache a k = Some c \<and> \<not> asked_at x - timestamp c < cacheTTL a \<longrightarrow>
            (\<exists>e. tryFetch (answer x) = Inl e \<and>
                 fetchWithCache a url k x =
                   (Inr (data c), a,
                    [Fetch (corsProxyUrl a @ url),
                     Console ErrorLevel [Str ''API fetch error:'', Err e],
                     Console WarnLevel [Str ''Using expired cache due to fetch error'']])))
       \<and> (cache a k = None \<longrightarrow>
            (\<exists>e. tryFetch (answer x) = Inl e \<and>
                 fetchWithCache a url k x =
                   (Inl e, a,
                    [Fetch (corsProxyUrl a @ url),
                     Console ErrorLevel [Str ''API fetch error:'', Err e]])))"
proof -
  from assms obtain e where e: "tryFetch (answer x) = Inl e"
    using tryFetch_failed by blast
  then show ?thesis
    by (simp add: fetchWithCache_def fetchStart_def settle_def fetchFinish_def)
qed

text \<open>
  An entry written at 1000 is stale at 700000 under the time to live of ten minutes; the
  reply is a 503.  The key with the entry gets the old data, the key without one the error.
\<close>

theorem fetchWithCache_stale_on_error_witness:
  "let a = (newOpenWeatherMapAdapter ''key'' ''http://localhost:8081/'')
             \<lparr>cache := [''onecall_40_-74'' \<mapsto> \<lparr>data = (7::nat), timestamp = 1000\<rparr>]\<rparr>;
       x = \<lparr>asked_at = 700000, answer = Reply 503 None, answered_at = 700250\<rparr>
   in fetch_failed (answer x)
      \<and> \<not> asked_at x - 1000 < cacheTTL a
      \<and> fst (fetchWithCache a ''u'' ''onecall_40_-74'' x) = Inr 7
      \<and> fst (fetchWithCache a ''u'' ''airquality_40_-74'' x) = Inl (HttpError 503)"
proof -
  let ?a = "(newOpenWeatherMapAdapter ''key'' ''http://localhost:8081/'')
              \<lparr>cache := [''onecall_40_-74'' \<mapsto> \<lparr>data = (7::nat), timestamp = 1000\<rparr>]\<rparr>"
  let ?x = "\<lparr>asked_at = 700000, answer = Reply 503 None, answered_at = 700250\<rparr> :: nat exchange"
  have failed: "fetch_failed (answer ?x)"
    by (simp add: fetch_failed_def)
  have thrown: "tryFetch (answer ?x) = Inl (HttpError 503)"
    by (simp add: tryFetch_def response_ok_def)
  from fetchWithCache_stale_on_error [OF failed, of ?a "''onecall_40_-74''" "''u''"]
       fetchWithCache_stale_on_error [OF failed, of ?a "''airquality_40_-74''" "''u''"]
       failed thrown
  show ?thesis
    by (simp add: Let_def newOpenWeatherMapAdapter_def)
qed

text \<open>
  Claim C5.  For every key: if the cache holds an entry whose age, the clock of the call
  minus its stored timestamp, is strictly below the time to live, \<open>fetchWithCache\<close> returns
  the cached data and issues no request (its only effect is one console line).  So when a
  call finds no fresh entry and its fetch succeeds, a second call with the same key that
  starts within the time to live of the moment the entry was stored returns the same data,
  and the two calls together issue exactly one request.
\<close>

theorem fetchWithCache_fresh_hit:
  "(\<forall>c. cache a k = Some c \<and> asked_at x - timestamp c < cacheTTL a \<longrightarrow>
       fetchWithCache a url k x =
         (Inr (data c), a, [Console LogLevel [Str ''Using cached data for:'', Str k]]))
   \<and> (\<forall>d. (\<forall>c. cache a k = Some c \<longrightarrow> \<not> asked_at x - timestamp c < cacheTTL a)
          \<and> tryFetch (answer x) = Inr d
          \<and> asked_at x' - answered_at x < cacheTTL a \<longrightarrow>
          (let first = fetchWithCache a url k x;
               second = fetchWithCache (fst (snd first)) url' k x'
           in fst first = Inr d \<and> fst second = Inr d
              \<and> filter is_fetch (snd (snd first) @ snd (snd second))
                  = [Fetch (corsProxyUrl a @ url)]))"
  by (auto simp: fetchWithCache_def fetchStart_def settle_def fetchFinish_def Let_def
           split: option.splits)

text \<open>
  A first call on an empty cache stores its result at 1200; a second call at 601199, one
  millisecond before the entry expires, is served from the cache although the network is
  down by then.
\<close>

theorem fetchWithCache_fresh_hit_witness:
  "let a = newOpenWeatherMapAdapter ''key'' ''http://localhost:8081/'';
       x = \<lparr>asked_at = 1000, answer = Reply 200 (Some (7::nat)), answered_at = 1200\<rparr>;
       x' = \<lparr>asked_at = 601199, answer = NoReply, answered_at = 601300\<rparr>;
       first = fetchWithCache a ''u'' ''k'' x;
       second = fetchWithCache (fst (snd first)) ''u'' ''k'' x'
   in tryFetch (answer x) = Inr 7 \<and> asked_at x' - answered_at x < cacheTTL a
      \<and> fst first = Inr 7 \<and> fst second = Inr 7
      \<and> filter is_fetch (snd (snd first) @ snd (snd second)) = [Fetch ''http://localhost:8081/u'']
      \<and> snd (snd second) = [Console LogLevel [Str ''Using cached data for:'', Str ''k'']]"
proof -
  let ?a = "newOpenWeatherMapAdapter ''key'' ''http://localhost:8081/'' :: nat owm_adapter"
  let ?x = "\<lparr>asked_at = 1000, answer = Reply 200 (Some (7::nat)), answered_at = 1200\<rparr>"
  let ?x' = "\<lparr>asked_at = 601199, answer = NoReply, answered_at = 601300\<rparr> :: nat exchange"
  from fetchWithCache_fresh_hit [where a = ?a and k = "''k''" and x = ?x and x' = ?x'
                                      and url = "''u''" and url' = "''u''"]
  show ?thesis
    by (simp add: Let_def fetchWithCache_def fetchStart_def settle_def fetchFinish_def
                  tryFetch_def response_ok_def newOpenWeatherMapAdapter_def)
qed

subsection \<open>The snapshot of one location\<close>









subsection \<open>A batch of locations\<close>

lemma promiseAll_fulfilled: "promiseAll (map (\<lambda>x. Inr (f x)) xs) = Inr (map f xs)"
  by (induction xs) auto

text \<open>The batch never rejects: every element is its snapshot or \<^verbatim>\<open>null\<close>.\<close>

lemma getBatchWeatherData_result:
  "fst (getBatchWeatherData complete locations) =
     Inr (map (\<lambda>(i, loc). case complete i (loc_lat loc) (loc_lon loc) of
                             Inl e \<Rightarrow> None | Inr s \<Rightarrow> Some s)
              (enumerate 0 locations))"
proof -
  have "promiseAll (map fst (map (\<lambda>(i, loc).
                   case complete i (loc_lat loc) (loc_lon loc) of
                     Inl error \<Rightarrow>
                       (Inr None,
                        [Console ErrorLevel
                           [Str (''Error fetching weather for '' @ loc_lat loc @ '','' @ loc_lon loc
                                   @ '':''),
                            Err error]])
                   | Inr snapshot \<Rightarrow> (Inr (Some snapshot), []))
                xs))
     = Inr (map (\<lambda>(i, loc). case complete i (loc_lat loc) (loc_lon loc) of
                               Inl e \<Rightarrow> None | Inr s \<Rightarrow> Some s) xs)"
    for xs :: "(nat \<times> location) list"
    by (induction xs) (auto split: sum.splits)
  then show ?thesis
    by (simp add: getBatchWeatherData_def)
qed

text \<open>
  Claim C2.  For every list of locations, and however the snapshot fetches of its elements
  settle, \<open>getBatchWeatherData\<close> is fulfilled with a list of the same length, whose element
  at each index is \<^verbatim>\<open>null\<close> when the fetch for the location at that index failed and the
  snapshot of that fetch otherwise: a failure changes nothing at any other index.
\<close>

theorem getBatchWeatherData_index_aligned:
  "\<exists>out. fst (getBatchWeatherData complete locations) = Inr out
      \<and> length out = length locations
      \<and> (\<forall>i < length locations.
            out ! i = (case complete i (loc_lat (locations ! i)) (loc_lon (locations ! i)) of
                         Inl e \<Rightarrow> None
                       | Inr s \<Rightarrow> Some s))"
  by (simp add: getBatchWeatherData_result nth_enumerate_eq)

text \<open>
  The example of the specification on a new adapter: of three locations the One Call fetch
  for the second gets no reply (all air quality fetches fail as well, and the replies for
  the third location come in the other order).  The outcome of each call is that of
  \<open>getCompleteWeatherData\<close> on the adapter as it is when the batch starts, since every call
  reads the cache before the first reply is handled.
\<close>

theorem getBatchWeatherData_index_aligned_witness:
  "let xf = \<lparr>transformCurrentConditions = (\<lambda>c tz. Inr c), hourly_item = (\<lambda>h tz. Inr h),
             daily_item = (\<lambda>i d tz. Inr d), alert_item = (\<lambda>al. Inr al),
             air_item = (\<lambda>q. Inr q)\<rparr>;
       a = newOpenWeatherMapAdapter ''key'' ''http://localhost:8081/'';
       doc = (\<lambda>n. \<lparr>oc_current = (n::nat), oc_hourly = Some [], oc_daily = Some [],
                     oc_alerts = None, oc_timezone = 0, oc_lat = n, oc_lon = n\<rparr>);
       good = (\<lambda>n. \<lparr>asked_at = 1000, answer = Reply 200 (Some (OneCall (doc n))),
                      answered_at = 1200\<rparr>);
       bad = \<lparr>asked_at = 1000, answer = NoReply, answered_at = 1300\<rparr>;
       complete = (\<lambda>i lat lon. fst (getCompleteWeatherData xf a lat lon
                                      (if i = 1 then bad else good i) bad (i = 2)));
       locations = [\<lparr>loc_lat = ''40'', loc_lon = ''-74''\<rparr>, \<lparr>loc_lat = ''41'', loc_lon = ''-75''\<rparr>,
                    \<lparr>loc_lat = ''42'', loc_lon = ''-76''\<rparr>];
       snap = (\<lambda>n. \<lparr>snap_current = n, snap_hourly = [], snap_daily = [], snap_alerts = [],
                      snap_airQuality = None, snap_timezone = 0, snap_lat = n, snap_lon = n\<rparr>)
   in (1::nat) < length locations
      \<and> complete 1 (loc_lat (locations ! 1)) (loc_lon (locations ! 1)) = Inl NetworkError
      \<and> fst (getBatchWeatherData complete locations) = Inr [Some (snap 0), None, Some (snap 2)]"
proof -
  let ?xf = "\<lparr>transformCurrentConditions = (\<lambda>c tz. Inr c), hourly_item = (\<lambda>h tz. Inr h),
             daily_item = (\<lambda>i d tz. Inr d), alert_item = (\<lambda>al. Inr al),
             air_item = (\<lambda>q. Inr q)\<rparr>
             :: (nat, nat) normalizer"
  let ?a = "newOpenWeatherMapAdapter ''key'' ''http://localhost:8081/'' :: nat body owm_adapter"
  let ?doc = "\<lambda>n. \<lparr>oc_current = (n::nat), oc_hourly = Some [], oc_daily = Some [],
                     oc_alerts = None, oc_timezone = 0, oc_lat = n, oc_lon = n\<rparr>"
  let ?good = "\<lambda>n. \<lparr>asked_at = 1000, answer = Reply 200 (Some (OneCall (?doc n))),
                      answered_at = 1200\<rparr>"
  let ?bad = "\<lparr>asked_at = 1000, answer = NoReply, answered_at = 1300\<rparr> :: nat body exchange"
  let ?complete = "\<lambda>(i::nat) lat lon. fst (getCompleteWeatherData ?xf ?a lat lon
                                      (if i = 1 then ?bad else ?good i) ?bad (i = 2))"
  let ?locations = "[\<lparr>loc_lat = ''40'', loc_lon = ''-74''\<rparr>, \<lparr>loc_lat = ''41'', loc_lon = ''-75''\<rparr>,
                    \<lparr>loc_lat = ''42'', loc_lon = ''-76''\<rparr>]"
  let ?snap = "\<lambda>n. \<lparr>snap_current = n, snap_hourly = [], snap_daily = [], snap_alerts = [],
                      snap_airQuality = None, snap_timezone = 0, snap_lat = n, snap_lon = n\<rparr>
               :: (nat, nat) snapshot"
  have c0: "?complete 0 ''40'' ''-74'' = Inr (?snap 0)"
    and c1: "?complete 1 ''41'' ''-75'' = Inl NetworkError"
    and c2: "?complete 2 ''42'' ''-76'' = Inr (?snap 2)"
    by (simp_all add: getCompleteWeatherData_def fetchStart_def settle_def fetchFinish_def
                      tryFetch_def response_ok_def newOpenWeatherMapAdapter_def
                      buildSnapshot_def catchAirQuality_def transformHourlyForecast_def
                      transformDailyForecast_def transformAlerts_def)
  from getBatchWeatherData_index_aligned [of ?complete ?locations]
  obtain out where out: "fst (getBatchWeatherData ?complete ?locations) = Inr out"
    and len: "length out = 3"
    and nth: "\<forall>i<3. out ! i =
                (case ?complete i (loc_lat (?locations ! i)) (loc_lon (?locations ! i)) of
                   Inl e \<Rightarrow> None | Inr s \<Rightarrow> Some s)"
    by auto
  from nth [rule_format, of 0] nth [rule_format, of 1] nth [rule_format, of 2] c0 c1 c2
  have "out ! 0 = Some (?snap 0)" "out ! 1 = None" "out ! 2 = Some (?snap 2)"
    by simp_all
  with len have "out = [Some (?snap 0), None, Some (?snap 2)]"
    by (cases out; simp; cases "tl out"; simp; cases "tl (tl out)"; simp)
  with out c1 show ?thesis
    by (simp only: Let_def list.size nth_Cons_0 nth_Cons_Suc One_nat_def location.simps) simp
qed

subsection \<open>Radar timestamps and series\<close>

text \<open>
  Claim C9.  For every manifest, \<open>getRadarTimestamps\<close> returns the past timestamps followed
  by the forecast (nowcast) timestamps, each list in the order of the manifest, and
  \<open>current\<close> is the last past timestamp, or \<^verbatim>\<open>null\<close>, not an error, when the manifest has no
  past frame.
\<close>

theorem getRadarTimestamps_merge:
  "getRadarTimestamps (Inr maps) =
     Inr \<lparr>past = map time (pastFrames maps),
          nowcast = map time (nowcastFrames maps),
          all = map time (pastFrames maps) @ map time (nowcastFrames maps),
          current = (if pastFrames maps = [] then None
                     else Some (time (last (pastFrames maps))))\<rparr>"
  by (simp add: getRadarTimestamps_def Let_def last_conv_nth last_map)

text \<open>
  The example of the specification, past 100 and 200 with forecast 300 and 400, and two
  manifests without a past frame: an empty list, and no \<^verbatim>\<open>radar\<close> at all.
\<close>

theorem getRadarTimestamps_merge_witness:
  "getRadarTimestamps
     (Inr \<lparr>radar = Some \<lparr>radar_past = Some [\<lparr>time = 100, path = ''/a''\<rparr>,
                                              \<lparr>time = 200, path = ''/b''\<rparr>],
                          radar_nowcast = Some [\<lparr>time = 300, path = ''/c''\<rparr>,
                                                 \<lparr>time = 400, path = ''/d''\<rparr>]\<rparr>\<rparr>)
     = Inr \<lparr>past = [100, 200], nowcast = [300, 400], all = [100, 200, 300, 400],
            current = Some 200\<rparr>
   \<and> getRadarTimestamps
       (Inr \<lparr>radar = Some \<lparr>radar_past = Some [],
                            radar_nowcast = Some [\<lparr>time = 300, path = ''/c''\<rparr>]\<rparr>\<rparr>)
       = Inr \<lparr>past = [], nowcast = [300], all = [300], current = None\<rparr>
   \<and> getRadarTimestamps (Inr \<lparr>radar = None\<rparr>)
       = Inr \<lparr>past = [], nowcast = [], all = [], current = None\<rparr>"
  using getRadarTimestamps_merge
          [of "\<lparr>radar = Some \<lparr>radar_past = Some [\<lparr>time = 100, path = ''/a''\<rparr>,
                                                  \<lparr>time = 200, path = ''/b''\<rparr>],
                              radar_nowcast = Some [\<lparr>time = 300, path = ''/c''\<rparr>,
                                                     \<lparr>time = 400, path = ''/d''\<rparr>]\<rparr>\<rparr>"]
        getRadarTimestamps_merge
          [of "\<lparr>radar = Some \<lparr>radar_past = Some [],
                              radar_nowcast = Some [\<lparr>time = 300, path = ''/c''\<rparr>]\<rparr>\<rparr>"]
        getRadarTimestamps_merge [of "\<lparr>radar = None\<rparr>"]
  by (simp add: pastFrames_def nowcastFrames_def)

text \<open>
  The series of a manifest: every timestamp of the merged list, flagged by membership in
  the past timestamps.
\<close>

lemma getRadarSeries_frames:
  "getRadarSeries (Inr maps) =
     Inr \<lparr>series = map (\<lambda>t. \<lparr>ts = t, isPast = (t \<in> set (map time (pastFrames maps)))\<rparr>)
                       (map time (pastFrames maps) @ map time (nowcastFrames maps)),
          series_current = (if pastFrames maps = [] then None
                            else Some (time (last (pastFrames maps)))),
          metadata = \<lparr>source = ''RainViewer'', updateInterval = 300000\<rparr>\<rparr>"
  by (simp add: getRadarSeries_def getRadarTimestamps_def Let_def last_conv_nth last_map)

text \<open>The two groups of such a series, and the order of its flags.\<close>

lemma past_group:
  "map ts (filter isPast (map (\<lambda>t. \<lparr>ts = t, isPast = (t \<in> set P)\<rparr>) (P @ N)))
     = P @ filter (\<lambda>t. t \<in> set P) N"
  by (simp add: filter_map comp_def)

lemma forecast_group:
  "map ts (filter (\<lambda>f. \<not> isPast f) (map (\<lambda>t. \<lparr>ts = t, isPast = (t \<in> set P)\<rparr>) (P @ N)))
     = filter (\<lambda>t. t \<notin> set P) N"
  by (simp add: filter_map comp_def)

lemma flags_ordered:
  "sorted_wrt (\<lambda>f g. isPast g \<longrightarrow> isPast f)
              (map (\<lambda>t. \<lparr>ts = t, isPast = (t \<in> set P)\<rparr>) (P @ N))
     \<longleftrightarrow> sorted_wrt (\<lambda>s t. t \<in> set P \<longrightarrow> s \<in> set P) N"
proof -
  have "sorted_wrt (\<lambda>s t. t \<in> set P \<longrightarrow> s \<in> set P) P"
    by (rule sorted_wrt_mono_rel [of _ "\<lambda>_ _. True"]) simp_all
  then show ?thesis
    by (simp add: sorted_wrt_map sorted_wrt_append)
qed

text \<open>
  With both lists ascending, the flagged series is ordered exactly when the lists share no
  timestamp or no forecast timestamp is earlier than a past one.
\<close>

lemma flagged_ordered_iff:
  fixes P N :: "int list"
  assumes P: "sorted P" and N: "sorted N"
  shows "timeline_ordered (map (\<lambda>t. \<lparr>ts = t, isPast = (t \<in> set P)\<rparr>) (P @ N)) \<longleftrightarrow>
         (set P \<inter> set N = {} \<or> (\<forall>p\<in>set P. \<forall>n\<in>set N. p \<le> n))"
proof
  assume "timeline_ordered (map (\<lambda>t. \<lparr>ts = t, isPast = (t \<in> set P)\<rparr>) (P @ N))"
  then have fl: "sorted_wrt (\<lambda>s t. t \<in> set P \<longrightarrow> s \<in> set P) N"
    and pg: "sorted (P @ filter (\<lambda>t. t \<in> set P) N)"
    by (simp_all only: timeline_ordered_def flags_ordered past_group)
  show "set P \<inter> set N = {} \<or> (\<forall>p\<in>set P. \<forall>n\<in>set N. p \<le> n)"
  proof (cases "set P \<inter> set N = {}")
    case True
    then show ?thesis by simp
  next
    case False
    then obtain t where tP: "t \<in> set P" and tN: "t \<in> set N" by blast
    from pg have le: "\<And>p n. p \<in> set P \<Longrightarrow> n \<in> set N \<Longrightarrow> n \<in> set P \<Longrightarrow> p \<le> n"
      by (auto simp: sorted_append)
    have "p \<le> n" if p: "p \<in> set P" and n: "n \<in> set N" for p n
    proof (cases "n \<in> set P")
      case True
      with le p n show ?thesis by blast
    next
      case nP: False
      from n obtain i where i: "i < length N" "N ! i = n" by (auto simp: in_set_conv_nth)
      from tN obtain j where j: "j < length N" "N ! j = t" by (auto simp: in_set_conv_nth)
      have "\<not> i < j"
      proof
        assume "i < j"
        with fl j have "N ! j \<in> set P \<longrightarrow> N ! i \<in> set P"
          by (auto simp: sorted_wrt_iff_nth_less)
        with i j tP nP show False by simp
      qed
      moreover have "i \<noteq> j" using i j tP nP by auto
      ultimately have "j < i" by simp
      with N i have "N ! j \<le> N ! i" by (auto simp: sorted_iff_nth_mono)
      with i j have "t \<le> n" by simp
      moreover from le p tP tN have "p \<le> t" by blast
      ultimately show ?thesis by simp
    qed
    then show ?thesis by blast
  qed
next
  assume c: "set P \<inter> set N = {} \<or> (\<forall>p\<in>set P. \<forall>n\<in>set N. p \<le> n)"
  have pg: "sorted (P @ filter (\<lambda>t. t \<in> set P) N)"
    using c
  proof
    assume "set P \<inter> set N = {}"
    then have "filter (\<lambda>t. t \<in> set P) N = []" by (auto simp: filter_empty_conv)
    with P show ?thesis by simp
  next
    assume "\<forall>p\<in>set P. \<forall>n\<in>set N. p \<le> n"
    moreover from N have "sorted (filter (\<lambda>t. t \<in> set P) N)" by (rule sorted_wrt_filter)
    ultimately show ?thesis using P by (auto simp: sorted_append)
  qed
  have fg: "sorted (filter (\<lambda>t. t \<notin> set P) N)"
    using N by (rule sorted_wrt_filter)
  have fl: "sorted_wrt (\<lambda>s t. t \<in> set P \<longrightarrow> s \<in> set P) N"
    unfolding sorted_wrt_iff_nth_less
  proof (intro allI impI)
    fix i j
    assume ij: "i < j" "j < length N" and jP: "N ! j \<in> set P"
    show "N ! i \<in> set P"
      using c
    proof
      assume "set P \<inter> set N = {}"
      with jP ij show ?thesis by (auto simp: disjoint_iff)
    next
      assume a: "\<forall>p\<in>set P. \<forall>n\<in>set N. p \<le> n"
      from ij have "N ! i \<in> set N" by simp
      with a jP have "N ! j \<le> N ! i" by blast
      moreover from N ij have "N ! i \<le> N ! j" by (auto simp: sorted_iff_nth_mono)
      ultimately show ?thesis using jP by simp
    qed
  qed
  from pg fg fl show "timeline_ordered (map (\<lambda>t. \<lparr>ts = t, isPast = (t \<in> set P)\<rparr>) (P @ N))"
    by (simp only: timeline_ordered_def flags_ordered past_group forecast_group simp_thms)
qed

text \<open>
  Claim C7, as stated, covers manifests in which a forecast timestamp equals a past one.
  Past 100 and 200 with forecast 150 and 200, each list ascending: the forecast frame 200 is
  found among the past timestamps and flagged \<open>isPast\<close>, behind the forecast frame 150.
\<close>

theorem getRadarSeries_shared_timestamp_counterexample:
  "sorted [100, 200 :: int] \<and> sorted [150, 200 :: int]
   \<and> getRadarSeries
       (Inr \<lparr>radar = Some \<lparr>radar_past = Some [\<lparr>time = 100, path = ''/a''\<rparr>,
                                                \<lparr>time = 200, path = ''/b''\<rparr>],
                            radar_nowcast = Some [\<lparr>time = 150, path = ''/c''\<rparr>,
                                                   \<lparr>time = 200, path = ''/d''\<rparr>]\<rparr>\<rparr>)
       = Inr \<lparr>series = [\<lparr>ts = 100, isPast = True\<rparr>, \<lparr>ts = 200, isPast = True\<rparr>,
                        \<lparr>ts = 150, isPast = False\<rparr>, \<lparr>ts = 200, isPast = True\<rparr>],
              series_current = Some 200,
              metadata = \<lparr>source = ''RainViewer'', updateInterval = 300000\<rparr>\<rparr>
   \<and> \<not> timeline_ordered [\<lparr>ts = 100, isPast = True\<rparr>, \<lparr>ts = 200, isPast = True\<rparr>,
                          \<lparr>ts = 150, isPast = False\<rparr>, \<lparr>ts = 200, isPast = True\<rparr>]"
  by (simp add: getRadarSeries_def getRadarTimestamps_def pastFrames_def nowcastFrames_def
                timeline_ordered_def Let_def)

text \<open>
  Claim C7, amended.  For every manifest whose past list and whose forecast list are each in
  chronological order, the series of \<open>getRadarSeries\<close> satisfies the ordering invariant if
  and only if no forecast timestamp equals a past timestamp or no forecast timestamp is
  earlier than any past timestamp.  In particular the invariant holds for every such
  manifest in which the forecast and the past timestamps are disjoint.
\<close>

theorem getRadarSeries_ordered_iff:
  assumes "sorted (map time (pastFrames maps))"
    and "sorted (map time (nowcastFrames maps))"
  shows "\<exists>r. getRadarSeries (Inr maps) = Inr r
           \<and> (timeline_ordered (series r) \<longleftrightarrow>
                set (map time (pastFrames maps)) \<inter> set (map time (nowcastFrames maps)) = {}
                \<or> (\<forall>p\<in>set (map time (pastFrames maps)).
                      \<forall>n\<in>set (map time (nowcastFrames maps)). p \<le> n))"
  using flagged_ordered_iff [OF assms]
  by (simp only: getRadarSeries_frames radar_series.simps sum.inject simp_thms ex_simps)

text \<open>
  Past 100 and 200 with forecast 200 and 300: the shared timestamp 200 is the last past and
  the first forecast one, no forecast timestamp is earlier than a past one, and the series is
  ordered.
\<close>

theorem getRadarSeries_ordered_iff_witness:
  "let maps = \<lparr>radar = Some \<lparr>radar_past = Some [\<lparr>time = 100, path = ''/a''\<rparr>,
                                                  \<lparr>time = 200, path = ''/b''\<rparr>],
                              radar_nowcast = Some [\<lparr>time = 200, path = ''/c''\<rparr>,
                                                     \<lparr>time = 300, path = ''/d''\<rparr>]\<rparr>\<rparr>
   in sorted (map time (pastFrames maps)) \<and> sorted (map time (nowcastFrames maps))
      \<and> (\<forall>p\<in>set (map time (pastFrames maps)). \<forall>n\<in>set (map time (nowcastFrames maps)). p \<le> n)
      \<and> (\<exists>r. getRadarSeries (Inr maps) = Inr r \<and> timeline_ordered (series r))"
proof -
  let ?maps = "\<lparr>radar = Some \<lparr>radar_past = Some [\<lparr>time = 100, path = ''/a''\<rparr>,
                                                  \<lparr>time = 200, path = ''/b''\<rparr>],
                              radar_nowcast = Some [\<lparr>time = 200, path = ''/c''\<rparr>,
                                                     \<lparr>time = 300, path = ''/d''\<rparr>]\<rparr>\<rparr>"
  have p: "sorted (map time (pastFrames ?maps))"
    by (simp add: pastFrames_def)
  have n: "sorted (map time (nowcastFrames ?maps))"
    by (simp add: nowcastFrames_def)
  have le: "\<forall>p\<in>set (map time (pastFrames ?maps)). \<forall>n\<in>set (map time (nowcastFrames ?maps)). p \<le> n"
    by (simp add: pastFrames_def nowcastFrames_def)
  from getRadarSeries_ordered_iff [OF p n] le
  have "\<exists>r. getRadarSeries (Inr ?maps) = Inr r \<and> timeline_ordered (series r)"
    by blast
  with p n le show ?thesis
    by (simp only: Let_def simp_thms)
qed

subsection \<open>Tile addresses\<close>

text \<open>
  Claim C8, as stated, lets an option value outside its enumeration fall back to the default.
  The colour scheme 99 is not among the nine schemes, and \<open>getRadarTileUrl\<close> puts it into
  the address as it is; the address with the default scheme 1 is a different one.
\<close>

theorem getRadarTileUrl_unvalidated_counterexample:
  "map_of getColorSchemes 99 = None
   \<and> getRadarTileUrl ''https://tilecache.rainviewer.com'' 1700000000 5 9 12
        \<lparr>opt_size = None, opt_color = Some 99, opt_smooth = None, opt_snow = None\<rparr>
       = ''https://tilecache.rainviewer.com/v2/radar/1700000000/5/9/12/256/99_1.png''
   \<and> getRadarTileUrl ''https://tilecache.rainviewer.com'' 1700000000 5 9 12
        \<lparr>opt_size = None, opt_color = Some 99, opt_smooth = None, opt_snow = None\<rparr>
       \<noteq> ''https://tilecache.rainviewer.com/v2/radar/1700000000/5/9/12/256/1_1.png''"
  by (simp add: getColorSchemes_def getRadarTileUrl_def js_or_def numToString_def
                digitsOf.simps digitChar_def)

text \<open>
  Claim C8, amended.  \<open>getRadarTileUrl\<close> only builds a string from its arguments (it takes
  no adapter state and returns nothing but the address).  For each of the options size,
  colour scheme and smoothing: a missing option takes the default (size 256, colour scheme
  1, smoothing 1), and a given number other than 0 is used as it is, inside or outside the
  enumeration; no option is validated.
\<close>

theorem getRadarTileUrl_options:
  assumes "\<forall>v. opt_size options = Some v \<longrightarrow> v \<noteq> 0"
    and "\<forall>v. opt_color options = Some v \<longrightarrow> v \<noteq> 0"
    and "\<forall>v. opt_smooth options = Some v \<longrightarrow> v \<noteq> 0"
  shows "getRadarTileUrl base stamp z x y options =
           base @ ''/v2/radar/'' @ numToString stamp @ ''/'' @ numToString z
             @ ''/'' @ numToString x @ ''/'' @ numToString y
             @ ''/'' @ numToString (case opt_size options of None \<Rightarrow> 256 | Some v \<Rightarrow> v)
             @ ''/'' @ numToString (case opt_color options of None \<Rightarrow> 1 | Some v \<Rightarrow> v)
             @ ''_'' @ numToString (case opt_smooth options of None \<Rightarrow> 1 | Some v \<Rightarrow> v)
             @ ''.png''"
  using assms
  by (simp add: getRadarTileUrl_def js_or_def Let_def split: option.splits)

text \<open>
  No options give the defaults; size 512 with the colour scheme 4, and the size 100 with the
  colour scheme 99 and the smoothing 7, are used as given.
\<close>

theorem getRadarTileUrl_options_witness:
  "getRadarTileUrl ''https://tilecache.rainviewer.com'' 1700000000 5 9 12 noOptions
     = ''https://tilecache.rainviewer.com/v2/radar/1700000000/5/9/12/256/1_1.png''
   \<and> getRadarTileUrl ''https://tilecache.rainviewer.com'' 1700000000 5 9 12
        \<lparr>opt_size = Some 512, opt_color = Some 4, opt_smooth = None, opt_snow = None\<rparr>
       = ''https://tilecache.rainviewer.com/v2/radar/1700000000/5/9/12/512/4_1.png''
   \<and> getRadarTileUrl ''https://tilecache.rainviewer.com'' 1700000000 5 9 12
        \<lparr>opt_size = Some 100, opt_color = Some 99, opt_smooth = Some 7, opt_snow = None\<rparr>
       = ''https://tilecache.rainviewer.com/v2/radar/1700000000/5/9/12/100/99_7.png''"
proof -
  have n: "numToString 1700000000 = ''1700000000''" "numToString 5 = ''5''"
    "numToString 9 = ''9''" "numToString 12 = ''12''" "numToString 256 = ''256''"
    "numToString 1 = ''1''" "numToString 512 = ''512''" "numToString 4 = ''4''"
    "numToString 100 = ''100''" "numToString 99 = ''99''" "numToString 7 = ''7''"
    by (simp_all add: numToString_def digitsOf.simps digitChar_def)
  from getRadarTileUrl_options
         [of noOptions "''https://tilecache.rainviewer.com''" 1700000000 5 9 12]
       getRadarTileUrl_options
         [of "\<lparr>opt_size = Some 512, opt_color = Some 4, opt_smooth = None, opt_snow = None\<rparr>"
             "''https://tilecache.rainviewer.com''" 1700000000 5 9 12]
       getRadarTileUrl_options
         [of "\<lparr>opt_size = Some 100, opt_color = Some 99, opt_smooth = Some 7, opt_snow = None\<rparr>"
             "''https://tilecache.rainviewer.com''" 1700000000 5 9 12]
  show ?thesis
    by (simp add: noOptions_def n)
qed

text \<open>
  The value 0 is in both enumerations (the colour scheme \<open>Original\<close>, smoothing off), and
  \<^verbatim>\<open>options.color || 1\<close> and \<^verbatim>\<open>options.smooth || 1\<close> replace it by 1.
\<close>

lemma getRadarTileUrl_zero_options:
  "map_of getColorSchemes 0 = Some ''Original''
   \<and> getRadarTileUrl base stamp z x y
        \<lparr>opt_size = None, opt_color = Some 0, opt_smooth = Some 0, opt_snow = None\<rparr>
       = getRadarTileUrl base stamp z x y noOptions"
  by (simp add: getRadarTileUrl_def js_or_def noOptions_def getColorSchemes_def)

end
